theory Spec2Isabelle
  imports Complex_Main "HOL-Library.Word"
begin

unbundle bit_operations_syntax

section \<open>Data model\<close>

text \<open>
  The library \<^verbatim>\<open>time32.py\<close> talks to user32/kernel32 through ctypes and to psutil.
  Everything those calls return is an input of the model. Python floats are read as
  reals; Python integers are unbounded and are \<open>int\<close> (or \<open>nat\<close> where the value is a
  handle, a process id or a length, which the Win32 contract gives as non-negative).
  A Python \<open>str\<close> is a list of code points.
\<close>

type_synonym ustr = "nat list"

datatype py_error = ValueError | ZeroDivisionError

text \<open>\<^verbatim>\<open>psutil.net_io_counters()\<close>: the two cumulative byte counters the code reads.\<close>

record net_io =
  bytes_sent :: int
  bytes_recv :: int

text \<open>
  The state of the window manager and of the process table, as the WinAPI entry points
  of the module report it. A handle value of 0 is NULL. \<open>GetLastInputInfo\<close> is
  \<open>None\<close> when the call returns FALSE and otherwise carries \<open>dwTime\<close>.
  \<open>GetTickCount\<close> is the raw 32-bit counter; \<open>QueryFullProcessImageNameW_present\<close>
  says whether \<^verbatim>\<open>getattr(kernel32, "QueryFullProcessImageNameW", None)\<close> found
  the entry point; \<open>QueryFullProcessImageNameW\<close> takes the process handle and is
  \<open>None\<close> when the query returns FALSE.
\<close>

record winapi =
  GetLastInputInfo :: "(32 word) option"
  GetTickCount :: "32 word"
  GetForegroundWindow :: nat
  EnumWindows :: "nat list"
  IsWindowVisible :: "nat \<Rightarrow> bool"
  GetWindowTextLengthW :: "nat \<Rightarrow> nat"
  GetWindowTextW :: "nat \<Rightarrow> ustr"
  GetWindowThreadProcessId :: "nat \<Rightarrow> nat"
  QueryFullProcessImageNameW_present :: bool
  OpenProcess :: "nat \<Rightarrow> nat"
  QueryFullProcessImageNameW :: "nat \<Rightarrow> ustr option"

text \<open>What psutil and the clock return during one snapshot, in call order.\<close>

record readings =
  cpu_baseline :: real
  cpu_sample :: real
  net_c0 :: net_io
  net_c1 :: net_io
  time_time :: real

text \<open>
  The kernel's table of process handles this program holds, with the order of the
  \<^verbatim>\<open>OpenProcess\<close> and \<^verbatim>\<open>CloseHandle\<close> calls that succeeded.
\<close>

datatype handle_call = Opened nat | Closed nat

record handles =
  open_handles :: "nat list"
  calls :: "handle_call list"

definition open_handle :: "nat \<Rightarrow> handles \<Rightarrow> handles" where
  "open_handle h k = \<lparr>open_handles = h # open_handles k, calls = calls k @ [Opened h]\<rparr>"

definition CloseHandle :: "nat \<Rightarrow> handles \<Rightarrow> handles" where
  "CloseHandle h k = \<lparr>open_handles = remove1 h (open_handles k), calls = calls k @ [Closed h]\<rparr>"

record snapshot =
  idle_seconds :: real
  foreground_title :: ustr
  cpu_percent :: real
  net_up_bps :: real
  net_down_bps :: real
  timestamp :: real

section \<open>Python string operations used by the module\<close>

text \<open>\<^verbatim>\<open>str.isspace\<close> on one code point (the whitespace table of CPython).\<close>

definition py_isspace :: "nat \<Rightarrow> bool" where
  "py_isspace c =
     ((9 \<le> c \<and> c \<le> 13) \<or> (28 \<le> c \<and> c \<le> 32) \<or> c = 133 \<or> c = 160 \<or> c = 5760 \<or>
      (8192 \<le> c \<and> c \<le> 8202) \<or> c = 8232 \<or> c = 8233 \<or> c = 8239 \<or> c = 8287 \<or> c = 12288)"

text \<open>\<^verbatim>\<open>s.strip()\<close>\<close>

definition py_strip :: "ustr \<Rightarrow> ustr" where
  "py_strip s = rev (dropWhile py_isspace (rev (dropWhile py_isspace s)))"

text \<open>\<^verbatim>\<open>s.split(sep)\<close> for a separator of one character: never the empty list.\<close>

fun py_split :: "nat \<Rightarrow> ustr \<Rightarrow> ustr list" where
  "py_split sep [] = [[]]"
| "py_split sep (c # cs) =
     (if c = sep then [] # py_split sep cs
      else (case py_split sep cs of
              [] \<Rightarrow> [[c]]
            | w # ws \<Rightarrow> (c # w) # ws))"

text \<open>
  \<^verbatim>\<open>buf.value\<close> of a buffer of \<open>n + 1\<close> wide characters into which the API copied at
  most \<open>n\<close> characters of the text: the characters before the first NUL.
\<close>

definition buf_value :: "nat \<Rightarrow> ustr \<Rightarrow> ustr" where
  "buf_value n text = takeWhile (\<lambda>c. c \<noteq> 0) (take n text)"

text \<open>An ASCII literal as a Python string.\<close>

definition ascii :: "string \<Rightarrow> ustr" where
  "ascii s = map of_char s"

section \<open>Activity probes\<close>

text \<open>
  \<^verbatim>\<open>get_idle_seconds\<close>. \<^verbatim>\<open>GetTickCount\<close> is bound without a restype, so ctypes reads
  the 32-bit result as a C int (\<open>sint\<close>); \<open>lii.dwTime\<close> is a DWORD (\<open>uint\<close>). The
  subtraction and the mask are on Python integers.
\<close>

definition get_idle_seconds :: "winapi \<Rightarrow> real" where
  "get_idle_seconds os =
     (case GetLastInputInfo os of
        None \<Rightarrow> - 1
      | Some dwTime \<Rightarrow>
          (let tick_now = sint (GetTickCount os);
               elapsed_ms = (tick_now - uint dwTime) AND 0xFFFFFFFF
           in real_of_int elapsed_ms / 1000))"

definition get_foreground_title :: "winapi \<Rightarrow> ustr" where
  "get_foreground_title os =
     (let hwnd = GetForegroundWindow os in
      if hwnd = 0 then []
      else (let length = GetWindowTextLengthW os hwnd in
            if length \<le> 0 then []
            else buf_value length (GetWindowTextW os hwnd)))"

text \<open>\<^verbatim>\<open>time.sleep\<close> raises ValueError on a negative argument.\<close>

definition time_sleep :: "real \<Rightarrow> py_error + unit" where
  "time_sleep secs = (if secs < 0 then Inl ValueError else Inr ())"

text \<open>
  \<^verbatim>\<open>get_cpu_percent\<close>: the first reading of \<^verbatim>\<open>psutil.cpu_percent(None)\<close> is dropped,
  the second one is returned as it is.
\<close>

definition get_cpu_percent :: "real \<Rightarrow> real \<Rightarrow> real \<Rightarrow> py_error + real" where
  "get_cpu_percent baseline sample sample_seconds =
     (case time_sleep sample_seconds of
        Inl e \<Rightarrow> Inl e
      | Inr _ \<Rightarrow> Inr sample)"

definition get_net_rates :: "net_io \<Rightarrow> net_io \<Rightarrow> real \<Rightarrow> py_error + real \<times> real" where
  "get_net_rates c0 c1 sample_seconds =
     (case time_sleep sample_seconds of
        Inl e \<Rightarrow> Inl e
      | Inr _ \<Rightarrow>
          if sample_seconds = 0 then Inl ZeroDivisionError
          else (let up = real_of_int (bytes_sent c1 - bytes_sent c0) / sample_seconds;
                    down = real_of_int (bytes_recv c1 - bytes_recv c0) / sample_seconds
                in Inr (up, down)))"

definition placeholder :: ustr where
  "placeholder = ascii ''(no title / none)''"

definition build_activity_snapshot :: "readings \<Rightarrow> winapi \<Rightarrow> real \<Rightarrow> real \<Rightarrow> py_error + snapshot" where
  "build_activity_snapshot r os cpu_seconds net_seconds =
     (case get_cpu_percent (cpu_baseline r) (cpu_sample r) cpu_seconds of
        Inl e \<Rightarrow> Inl e
      | Inr cpu \<Rightarrow>
          (case get_net_rates (net_c0 r) (net_c1 r) net_seconds of
             Inl e \<Rightarrow> Inl e
           | Inr (up_bps, down_bps) \<Rightarrow>
               (let idle = get_idle_seconds os;
                    t = get_foreground_title os;
                    title = (if t \<noteq> [] then t else placeholder)
                in Inr \<lparr>idle_seconds = idle, foreground_title = title, cpu_percent = cpu,
                         net_up_bps = up_bps, net_down_bps = down_bps,
                         timestamp = time_time r\<rparr>)))"

section \<open>The CPU reading of psutil\<close>

text \<open>
  Modelled from the spec: \<^verbatim>\<open>psutil.cpu_percent\<close>, a dependency of \<^verbatim>\<open>time32.py\<close> whose
  code is not among the repository's sources. The specification has the CPU measurement
  "establish a baseline counter reading, block for window, then compute utilization as the
  fraction of wall-clock time the CPU was non-idle over that interval". psutil computes
  that fraction from two \<^verbatim>\<open>cpu_times()\<close> readings: the record below has the fields of
  the Windows build, the only platform of the module.
\<close>

record scputimes =
  user :: real
  system :: real
  idle :: real
  interrupt :: real
  dpc :: real

text \<open>
  Modelled from the spec: the differences of the fields of two readings (absent from the
  sources, part of psutil), each trimmed at zero because a counter can read lower than
  before.
\<close>

definition cpu_times_deltas :: "scputimes \<Rightarrow> scputimes \<Rightarrow> scputimes" where
  "cpu_times_deltas t1 t2 =
     \<lparr>user = max 0 (user t2 - user t1),
      system = max 0 (system t2 - system t1),
      idle = max 0 (idle t2 - idle t1),
      interrupt = max 0 (interrupt t2 - interrupt t1),
      dpc = max 0 (dpc t2 - dpc t1)\<rparr>"

text \<open>
  Modelled from the spec: the whole time of a reading, idle time included (absent from
  the sources, part of psutil).
\<close>

definition cpu_tot_time :: "scputimes \<Rightarrow> real" where
  "cpu_tot_time t = user t + system t + idle t + interrupt t + dpc t"

text \<open>
  Modelled from the spec: the non-idle time of a reading (absent from the sources, part
  of psutil).
\<close>

definition cpu_busy_time :: "scputimes \<Rightarrow> real" where
  "cpu_busy_time t = cpu_tot_time t - idle t"

text \<open>
  Modelled from the spec: \<^verbatim>\<open>round(x, 1)\<close> of Python, which psutil applies to the
  percentage (absent from the sources): the nearest multiple of one tenth, a tie going to
  the even one.
\<close>

definition py_round1 :: "real \<Rightarrow> real" where
  "py_round1 x =
     (let y = x * 10; f = \<lfloor>y\<rfloor>; d = y - real_of_int f;
          n = (if d < 1 / 2 then f else if 1 / 2 < d then f + 1 else if even f then f else f + 1)
      in real_of_int n / 10)"

text \<open>
  Modelled from the spec: what one call of \<^verbatim>\<open>psutil.cpu_percent(None)\<close> returns (absent
  from the sources), from the reading \<open>t1\<close> the previous call stored and the reading
  \<open>t2\<close> it takes now: the non-idle fraction of the interval as a percentage, and 0.0
  when no time has passed.
\<close>

definition calculate :: "scputimes \<Rightarrow> scputimes \<Rightarrow> real" where
  "calculate t1 t2 =
     (let times_delta = cpu_times_deltas t1 t2;
          all_delta = cpu_tot_time times_delta;
          busy_delta = cpu_busy_time times_delta
      in if all_delta = 0 then 0 else py_round1 (busy_delta / all_delta * 100))"

section \<open>Window enumeration\<close>

definition get_window_title :: "winapi \<Rightarrow> nat \<Rightarrow> ustr" where
  "get_window_title os hwnd =
     (let length = GetWindowTextLengthW os hwnd in
      if length = 0 then []
      else buf_value length (GetWindowTextW os hwnd))"

definition get_window_pid :: "winapi \<Rightarrow> nat \<Rightarrow> nat" where
  "get_window_pid os hwnd = GetWindowThreadProcessId os hwnd"

text \<open>
  \<^verbatim>\<open>get_process_name\<close>, with the handle table threaded through. The \<^verbatim>\<open>finally\<close>
  clause runs on both returns of the \<^verbatim>\<open>try\<close> block. 92 is the backslash.
\<close>

definition get_process_name :: "winapi \<Rightarrow> nat \<Rightarrow> handles \<Rightarrow> ustr \<times> handles" where
  "get_process_name os pid k =
     (if \<not> QueryFullProcessImageNameW_present os then ([], k)
      else (let hProcess = OpenProcess os pid in
            if hProcess = 0 then ([], k)
            else (let k1 = open_handle hProcess k in
                  case QueryFullProcessImageNameW os hProcess of
                    Some path \<Rightarrow> (last (py_split 92 path), CloseHandle hProcess k1)
                  | None \<Rightarrow> ([], CloseHandle hProcess k1))))"

type_synonym window_record = "nat \<times> ustr \<times> nat \<times> ustr"

text \<open>The callback of \<^verbatim>\<open>list_visible_windows\<close>, run on one enumerated handle.\<close>

definition callback :: "winapi \<Rightarrow> nat \<Rightarrow> window_record list \<times> handles \<Rightarrow> window_record list \<times> handles" where
  "callback os hwnd acc =
     (case acc of (windows, k) \<Rightarrow>
        if IsWindowVisible os hwnd then
          (let title = get_window_title os hwnd in
           if py_strip title \<noteq> [] then
             (let pid = get_window_pid os hwnd in
              case get_process_name os pid k of
                (pname, k') \<Rightarrow> (windows @ [(hwnd, title, pid, pname)], k'))
           else (windows, k))
        else (windows, k))"

text \<open>
  \<^verbatim>\<open>EnumWindows\<close> calls the callback on every top-level window; the callback always
  returns True, so the enumeration is never cut short.
\<close>

definition list_visible_windows :: "winapi \<Rightarrow> handles \<Rightarrow> window_record list \<times> handles" where
  "list_visible_windows os k = fold (callback os) (EnumWindows os) ([], k)"

section \<open>Poll loop\<close>

text \<open>
  \<^verbatim>\<open>winloop.py\<close>: each tick prints the snapshot and the window list, which takes some
  time \<open>work\<close>, then calls \<^verbatim>\<open>time.sleep(POLL_SECONDS)\<close>. The state records the clock and
  the arguments of the inter-tick sleeps. The loop runs one tick per element of the list
  of work durations and ends at the KeyboardInterrupt that follows them.
\<close>

definition POLL_SECONDS :: real where
  "POLL_SECONDS = 5"

record loop_state =
  clock :: real
  sleeps :: "real list"

definition tick :: "real \<Rightarrow> loop_state \<Rightarrow> loop_state" where
  "tick work s =
     (let s1 = s\<lparr>clock := clock s + work\<rparr>
      in s1\<lparr>clock := clock s1 + POLL_SECONDS, sleeps := sleeps s1 @ [POLL_SECONDS]\<rparr>)"

fun main_loop :: "real list \<Rightarrow> loop_state \<Rightarrow> loop_state" where
  "main_loop [] s = s"
| "main_loop (work # rest) s = main_loop rest (tick work s)"

text \<open>
  The sleep the specification describes for one tick: the rest of the interval after the
  work, and none when the work took longer than the interval.
\<close>

definition spec_remaining_sleep :: "real \<Rightarrow> real \<Rightarrow> real" where
  "spec_remaining_sleep interval work = max 0 (interval - work)"

section \<open>Scenarios\<close>

text \<open>
  Three visible windows 11, 12 and 13, owned by processes 100, 200 and 300; \<^verbatim>\<open>OpenProcess\<close> is denied
  for process 200. The last input was at tick 1000 and the tick counter reads 1500.
\<close>

definition no_handles :: handles where
  "no_handles = \<lparr>open_handles = [], calls = []\<rparr>"

definition desktop :: winapi where
  "desktop =
     \<lparr>GetLastInputInfo = Some 1000,
      GetTickCount = 1500,
      GetForegroundWindow = 11,
      EnumWindows = [11, 12, 13],
      IsWindowVisible = (\<lambda>h. True),
      GetWindowTextLengthW = (\<lambda>h. if h = 11 then 7 else if h = 12 then 5 else if h = 13 then 4 else 0),
      GetWindowTextW =
        (\<lambda>h. if h = 11 then ascii ''Notepad'' else if h = 12 then ascii ''Shell''
             else if h = 13 then ascii ''Mail'' else []),
      GetWindowThreadProcessId =
        (\<lambda>h. if h = 11 then 100 else if h = 12 then 200 else if h = 13 then 300 else 400),
      QueryFullProcessImageNameW_present = True,
      OpenProcess = (\<lambda>pid. if pid = 200 then 0 else pid + 1),
      QueryFullProcessImageNameW =
        (\<lambda>hp. if hp = 101 then Some (ascii ''C:'' @ [92] @ ascii ''Windows'' @ [92] @ ascii ''notepad.exe'')
              else if hp = 301 then Some (ascii ''C:'' @ [92] @ ascii ''Apps'' @ [92] @ ascii ''mail.exe'')
              else None)\<rparr>"

text \<open>
  Four windows: 11 is visible and titled, 12 is visible with a title of three spaces, 13
  is titled and not visible, 14 is visible with no title. Window 12 has the focus.
\<close>

definition desktop_mixed :: winapi where
  "desktop_mixed =
     desktop\<lparr>GetForegroundWindow := 12,
       EnumWindows := [11, 12, 13, 14],
       IsWindowVisible := (\<lambda>h. h \<noteq> 13),
       GetWindowTextLengthW := (\<lambda>h. if h = 11 then 7 else if h = 12 then 3 else if h = 13 then 4 else 0),
       GetWindowTextW :=
         (\<lambda>h. if h = 11 then ascii ''Notepad'' else if h = 12 then [32, 32, 32]
              else if h = 13 then ascii ''Mail'' else [])\<rparr>"

definition sample_readings :: readings where
  "sample_readings =
     \<lparr>cpu_baseline = 0, cpu_sample = 25 / 2,
      net_c0 = \<lparr>bytes_sent = 1000, bytes_recv = 5000\<rparr>,
      net_c1 = \<lparr>bytes_sent = 1400, bytes_recv = 5100\<rparr>,
      time_time = 1700000000\<rparr>"

text \<open>
  Three readings of the CPU times: the one psutil holds before the snapshot, the one of
  the baseline call and the one of the sample call. The interrupt counter reads lower
  in the second than in the first.
\<close>

definition cpu_boot :: scputimes where
  "cpu_boot = \<lparr>user = 100, system = 50, idle = 800, interrupt = 4, dpc = 6\<rparr>"

definition cpu_before :: scputimes where
  "cpu_before = \<lparr>user = 110, system = 52, idle = 820, interrupt = 3, dpc = 6\<rparr>"

definition cpu_after :: scputimes where
  "cpu_after = \<lparr>user = 112, system = 53, idle = 824, interrupt = 3, dpc = 6\<rparr>"

section \<open>Auxiliary facts\<close>

lemma sint_mod_32: "sint (t :: 32 word) mod 2 ^ 32 = uint t"
proof -
  have "take_bit 32 (sint t) = take_bit 32 (uint t)"
    by (simp add: sint_uint take_bit_signed_take_bit)
  also have "\<dots> = uint t"
    using uint_lt2p [of t] by (simp add: take_bit_eq_mod)
  finally show ?thesis by (simp add: take_bit_eq_mod)
qed

lemma elapsed_ms_mod:
  "(sint (t :: 32 word) - uint (l :: 32 word)) AND 0xFFFFFFFF = (uint t - uint l) mod 2 ^ 32"
proof -
  have m: "(0xFFFFFFFF :: int) = mask 32"
    by (simp add: mask_eq_exp_minus_1)
  have "(sint t - uint l) AND mask 32 = (sint t - uint l) mod 2 ^ 32"
    by (simp add: take_bit_eq_mask [symmetric] take_bit_eq_mod)
  also have "\<dots> = (sint t mod 2 ^ 32 - uint l) mod 2 ^ 32"
    by (simp add: mod_diff_left_eq)
  also have "\<dots> = (uint t - uint l) mod 2 ^ 32"
    by (simp only: sint_mod_32)
  finally show ?thesis
    by (simp only: m)
qed

lemma elapsed_ms_word:
  "(sint (t :: 32 word) - uint (l :: 32 word)) AND 0xFFFFFFFF = uint (t - l)"
  by (simp only: elapsed_ms_mod) (simp add: uint_word_ariths)

lemma py_strip_Nil_iff: "(py_strip s = []) = (dropWhile py_isspace s = [])"
proof (cases "dropWhile py_isspace s")
  case Nil
  show ?thesis unfolding py_strip_def Nil by simp
next
  case (Cons c cs)
  then have "\<not> py_isspace (hd (dropWhile py_isspace s))"
    using hd_dropWhile [of py_isspace s] by simp
  then have "\<not> py_isspace c" using Cons by simp
  then have "dropWhile py_isspace (rev (c # cs)) \<noteq> []"
    by (simp add: dropWhile_eq_Nil_conv)
  then show ?thesis using Cons by (simp add: py_strip_def)
qed

lemma py_strip_Nil_all_space: "(py_strip s = []) = list_all py_isspace s"
  by (simp add: py_strip_Nil_iff dropWhile_eq_Nil_conv list_all_iff)

lemma fst_get_process_name:
  "fst (get_process_name os pid k) =
     (if QueryFullProcessImageNameW_present os \<and> OpenProcess os pid \<noteq> 0
      then (case QueryFullProcessImageNameW os (OpenProcess os pid) of
              None \<Rightarrow> []
            | Some path \<Rightarrow> last (py_split 92 path))
      else [])"
  by (simp add: get_process_name_def Let_def split: option.split)

lemma open_handles_get_process_name:
  "open_handles (snd (get_process_name os pid k)) = open_handles k"
  by (simp add: get_process_name_def Let_def open_handle_def CloseHandle_def split: option.split)

lemma callback_eq:
  "callback os h (ws, k) =
     (if IsWindowVisible os h \<and> py_strip (get_window_title os h) \<noteq> []
      then (ws @ [(h, get_window_title os h, get_window_pid os h,
                   fst (get_process_name os (get_window_pid os h) k))],
            snd (get_process_name os (get_window_pid os h) k))
      else (ws, k))"
  by (simp add: callback_def Let_def case_prod_beta)

lemma fst_callback:
  "fst (callback os h (ws, k)) =
     ws @ map (\<lambda>h. (h, get_window_title os h, get_window_pid os h,
                      fst (get_process_name os (get_window_pid os h) \<lparr>open_handles = [], calls = []\<rparr>)))
            (filter (\<lambda>h. IsWindowVisible os h \<and> py_strip (get_window_title os h) \<noteq> []) [h])"
  by (simp add: callback_eq fst_get_process_name)

lemma fst_fold_callback:
  "fst (fold (callback os) hs (ws, k)) =
     ws @ map (\<lambda>h. (h, get_window_title os h, get_window_pid os h,
                      fst (get_process_name os (get_window_pid os h) \<lparr>open_handles = [], calls = []\<rparr>)))
            (filter (\<lambda>h. IsWindowVisible os h \<and> py_strip (get_window_title os h) \<noteq> []) hs)"
proof (induction hs arbitrary: ws k)
  case Nil
  then show ?case by simp
next
  case (Cons h hs)
  obtain ws' k' where c: "callback os h (ws, k) = (ws', k')"
    by (cases "callback os h (ws, k)")
  have w: "ws' = fst (callback os h (ws, k))" using c by simp
  show ?case
    by (simp only: fold_simps c Cons.IH) (simp add: w fst_callback)
qed

lemma open_handles_callback:
  "open_handles (snd (callback os h (ws, k))) = open_handles k"
  by (simp add: callback_eq open_handles_get_process_name)

lemma open_handles_fold_callback:
  "open_handles (snd (fold (callback os) hs (ws, k))) = open_handles k"
proof (induction hs arbitrary: ws k)
  case Nil
  then show ?case by simp
next
  case (Cons h hs)
  obtain ws' k' where c: "callback os h (ws, k) = (ws', k')"
    by (cases "callback os h (ws, k)")
  have "open_handles k' = open_handles k"
    using open_handles_callback [of os h ws k] c by simp
  then show ?case
    by (simp only: fold_simps c Cons.IH)
qed

lemma real_elapsed:
  "GetLastInputInfo os = Some l \<Longrightarrow> get_idle_seconds os = real_of_int (uint (GetTickCount os - l)) / 1000"
  by (simp add: get_idle_seconds_def Let_def elapsed_ms_word del: of_int_numeral)

lemma fst_list_visible_windows:
  "fst (list_visible_windows os k) =
     map (\<lambda>h. (h, get_window_title os h, get_window_pid os h,
                 fst (get_process_name os (get_window_pid os h) \<lparr>open_handles = [], calls = []\<rparr>)))
       (filter (\<lambda>h. IsWindowVisible os h \<and> py_strip (get_window_title os h) \<noteq> []) (EnumWindows os))"
  by (simp add: list_visible_windows_def fst_fold_callback)

lemma hwnds_list_visible_windows:
  "map fst (fst (list_visible_windows os k)) =
     filter (\<lambda>h. IsWindowVisible os h \<and> py_strip (get_window_title os h) \<noteq> []) (EnumWindows os)"
  by (simp add: fst_list_visible_windows comp_def)

lemma open_handles_list_visible_windows:
  "open_handles (snd (list_visible_windows os k)) = open_handles k"
  by (simp add: list_visible_windows_def open_handles_fold_callback)

lemma get_window_title_deny [simp]:
  "get_window_title (os\<lparr>OpenProcess := f\<rparr>) h = get_window_title os h"
  by (simp add: get_window_title_def Let_def)

lemma get_window_pid_deny [simp]:
  "get_window_pid (os\<lparr>OpenProcess := f\<rparr>) h = get_window_pid os h"
  by (simp add: get_window_pid_def)

lemma py_round1_range:
  assumes "0 \<le> x" and "x \<le> 100"
  shows "0 \<le> py_round1 x \<and> py_round1 x \<le> 100"
proof -
  define y where "y = x * 10"
  define f where "f = \<lfloor>y\<rfloor>"
  define n where "n = (if y - real_of_int f < 1 / 2 then f
                       else if 1 / 2 < y - real_of_int f then f + 1
                       else if even f then f else f + 1)"
  have r: "py_round1 x = real_of_int n / 10"
    by (simp add: py_round1_def Let_def y_def f_def n_def)
  have y0: "0 \<le> y" and y1: "y \<le> 1000"
    using assms by (simp_all add: y_def)
  have f0: "0 \<le> f"
    using y0 by (simp add: f_def)
  have fy: "real_of_int f \<le> y"
    by (simp add: f_def)
  have f1: "f \<le> 1000"
    using y1 by (simp add: f_def floor_le_iff) 
  have lo: "0 \<le> n"
    using f0 by (simp add: n_def)
  have hi: "n \<le> 1000"
  proof (cases "y - real_of_int f < 1 / 2")
    case True
    then show ?thesis using f1 by (simp add: n_def)
  next
    case False
    then have "real_of_int f < y" by simp
    then have "real_of_int f < 1000" using y1 by simp
    then have "f < 1000" by simp
    then show ?thesis by (simp add: n_def)
  qed
  have "0 \<le> real_of_int n / 10" using lo by simp
  moreover have "real_of_int n / 10 \<le> 100" using hi by simp
  ultimately show ?thesis by (simp only: r)
qed

lemma calculate_range: "0 \<le> calculate t1 t2 \<and> calculate t1 t2 \<le> 100"
proof -
  define d where "d = cpu_times_deltas t1 t2"
  have nn: "0 \<le> user d" "0 \<le> system d" "0 \<le> idle d" "0 \<le> interrupt d" "0 \<le> dpc d"
    by (simp_all add: d_def cpu_times_deltas_def)
  have a0: "0 \<le> cpu_tot_time d"
    using nn by (simp add: cpu_tot_time_def)
  have b0: "0 \<le> cpu_busy_time d"
    using nn by (simp add: cpu_busy_time_def cpu_tot_time_def)
  have ba: "cpu_busy_time d \<le> cpu_tot_time d"
    using nn by (simp add: cpu_busy_time_def)
  show ?thesis
  proof (cases "cpu_tot_time d = 0")
    case True
    then show ?thesis by (simp add: calculate_def Let_def d_def)
  next
    case False
    then have pos: "0 < cpu_tot_time d" using a0 by simp
    have q0: "0 \<le> cpu_busy_time d / cpu_tot_time d * 100"
      using b0 pos by simp
    have q1: "cpu_busy_time d / cpu_tot_time d * 100 \<le> 100"
      using ba pos by (simp add: divide_le_eq)
    have c: "calculate t1 t2 = py_round1 (cpu_busy_time d / cpu_tot_time d * 100)"
      using False by (simp add: calculate_def Let_def d_def)
    show ?thesis
      unfolding c using q0 q1 by (rule py_round1_range)
  qed
qed

lemma get_cpu_percent_Inr:
  "0 \<le> sample_seconds \<Longrightarrow> get_cpu_percent baseline sample sample_seconds = Inr sample"
  by (simp add: get_cpu_percent_def time_sleep_def)

section \<open>Network rates\<close>

text \<open>
  Claim C1, as the code has it. \<^verbatim>\<open>get_net_rates\<close> divides the two counter differences
  by the sample window and returns the quotients as they are; nothing is clamped. For a
  positive window each component is non-negative exactly when its counter did not
  decrease between the two samples.
\<close>

theorem net_rates_sign:
  assumes "0 < sample_seconds"
  shows "get_net_rates c0 c1 sample_seconds =
           Inr (real_of_int (bytes_sent c1 - bytes_sent c0) / sample_seconds,
                real_of_int (bytes_recv c1 - bytes_recv c0) / sample_seconds)
         \<and> (0 \<le> real_of_int (bytes_sent c1 - bytes_sent c0) / sample_seconds) = (bytes_sent c0 \<le> bytes_sent c1)
         \<and> (0 \<le> real_of_int (bytes_recv c1 - bytes_recv c0) / sample_seconds) = (bytes_recv c0 \<le> bytes_recv c1)"
  using assms by (simp add: get_net_rates_def time_sleep_def zero_le_divide_iff)

theorem net_rates_sign_witness:
  "get_net_rates (net_c0 sample_readings) (net_c1 sample_readings) (1 / 5) = Inr (2000, 500)"
proof -
  have h: "(0::real) < 1 / 5" by simp
  show ?thesis
    using net_rates_sign [OF h, of "net_c0 sample_readings" "net_c1 sample_readings"]
    by (simp add: sample_readings_def)
qed

text \<open>
  The statement that no component is ever negative fails when a counter goes back: with
  \<open>bytes_sent\<close> falling from 100 to 40 over one second the upload rate is \<open>-60\<close>.
\<close>

theorem net_rates_negative_counterexample:
  "get_net_rates \<lparr>bytes_sent = 100, bytes_recv = 100\<rparr> \<lparr>bytes_sent = 40, bytes_recv = 100\<rparr> 1 =
     Inr (- 60, 0)
   \<and> fst (projr (get_net_rates \<lparr>bytes_sent = 100, bytes_recv = 100\<rparr>
                    \<lparr>bytes_sent = 40, bytes_recv = 100\<rparr> 1)) < 0"
  by (simp add: get_net_rates_def time_sleep_def)

section \<open>Idle time\<close>

text \<open>
  Claim C2. For every pair of 32-bit tick values, wrapped or not, a successful
  \<^verbatim>\<open>get_idle_seconds\<close> is \<open>((now - last) mod 2^32) / 1000\<close>, which is never negative;
  last = 1000 and now = 1500 give 0.5, and last = 0xFFFFFFF0 and now = 0x00000010 give
  0.032.
\<close>

theorem idle_seconds_modular:
  "get_idle_seconds (os\<lparr>GetLastInputInfo := Some last_input, GetTickCount := now\<rparr>) =
     real_of_int ((uint now - uint last_input) mod 2 ^ 32) / 1000
   \<and> 0 \<le> get_idle_seconds (os\<lparr>GetLastInputInfo := Some last_input, GetTickCount := now\<rparr>)
   \<and> get_idle_seconds (os\<lparr>GetLastInputInfo := Some 1000, GetTickCount := 1500\<rparr>) = 1 / 2
   \<and> get_idle_seconds (os\<lparr>GetLastInputInfo := Some 0xFFFFFFF0, GetTickCount := 0x00000010\<rparr>) = 32 / 1000"
proof -
  let ?os = "os\<lparr>GetLastInputInfo := Some last_input, GetTickCount := now\<rparr>"
  have e: "get_idle_seconds ?os = real_of_int ((uint now - uint last_input) mod 2 ^ 32) / 1000"
    unfolding get_idle_seconds_def Let_def by (simp only: elapsed_ms_mod) simp
  have n: "0 \<le> get_idle_seconds ?os"
    unfolding e by simp
  have s1: "get_idle_seconds (os\<lparr>GetLastInputInfo := Some 1000, GetTickCount := 1500\<rparr>) = 1 / 2"
    by (simp add: get_idle_seconds_def)
  have s2: "get_idle_seconds (os\<lparr>GetLastInputInfo := Some 0xFFFFFFF0, GetTickCount := 0x00000010\<rparr>) = 32 / 1000"
    by (simp add: get_idle_seconds_def)
  show ?thesis using e n s1 s2 by blast
qed

theorem idle_seconds_modular_witness:
  "get_idle_seconds desktop = 1 / 2 \<and> 0 \<le> get_idle_seconds desktop"
proof -
  have d: "desktop\<lparr>GetLastInputInfo := Some 1000, GetTickCount := 1500\<rparr> = desktop"
    by (simp add: desktop_def)
  show ?thesis
    using idle_seconds_modular [where os = desktop and last_input = 1000 and now = 1500] by (simp add: d)
qed

text \<open>
  Claim C7. When \<^verbatim>\<open>GetLastInputInfo\<close> fails the result is exactly \<open>-1\<close>; the function has
  no raising path; every result is either \<open>-1\<close> or a non-negative duration, and it is
  \<open>-1\<close> only on failure; a reading of zero comes only from a successful query whose
  \<open>dwTime\<close> equals the tick counter.
\<close>

theorem idle_seconds_sentinel:
  "get_idle_seconds (os\<lparr>GetLastInputInfo := None\<rparr>) = - 1
   \<and> (get_idle_seconds os = - 1) = (GetLastInputInfo os = None)
   \<and> (0 \<le> get_idle_seconds os) = (GetLastInputInfo os \<noteq> None)
   \<and> (get_idle_seconds os = - 1 \<or> 0 \<le> get_idle_seconds os)
   \<and> (get_idle_seconds os = 0) = (GetLastInputInfo os = Some (GetTickCount os))"
proof (cases "GetLastInputInfo os")
  case None
  then show ?thesis by (simp add: get_idle_seconds_def)
next
  case (Some l)
  define u where "u = uint (GetTickCount os - l)"
  have r: "get_idle_seconds os = real_of_int u / 1000"
    unfolding u_def using Some by (rule real_elapsed)
  have u0: "0 \<le> u"
    by (simp add: u_def)
  have z: "(u = 0) = (l = GetTickCount os)"
    by (auto simp: u_def uint_0_iff)
  have f: "get_idle_seconds (os\<lparr>GetLastInputInfo := None\<rparr>) = - 1"
    by (simp add: get_idle_seconds_def)
  have a: "real_of_int u / 1000 \<noteq> - 1"
    using u0 by simp
  have b: "0 \<le> real_of_int u / 1000"
    using u0 by simp
  have c: "(real_of_int u / 1000 = 0) = (GetLastInputInfo os = Some (GetTickCount os))"
    using z Some by auto
  show ?thesis
    unfolding r using Some f a b c by simp
qed

theorem idle_seconds_sentinel_witness:
  "get_idle_seconds (desktop\<lparr>GetLastInputInfo := None\<rparr>) = - 1
   \<and> get_idle_seconds (desktop\<lparr>GetLastInputInfo := None\<rparr>) \<noteq> 0
   \<and> get_idle_seconds (desktop\<lparr>GetLastInputInfo := Some 1500\<rparr>) = 0"
  using idle_seconds_sentinel [of "desktop\<lparr>GetLastInputInfo := None\<rparr>"]
    idle_seconds_sentinel [of "desktop\<lparr>GetLastInputInfo := Some 1500\<rparr>"]
  by (simp add: desktop_def)

section \<open>CPU usage\<close>

text \<open>
  Claim C4. For any readings of the CPU times behind the baseline call and the sample
  call of \<^verbatim>\<open>psutil.cpu_percent\<close>, also readings that went back, \<^verbatim>\<open>get_cpu_percent\<close>
  with a non-negative sample window returns the second percentage, and that value is in
  the closed interval from 0 to 100. The function adds no bound of its own: the bound is
  the one of the psutil calculation.
\<close>

theorem cpu_percent_in_range:
  assumes "0 \<le> sample_seconds"
  shows "get_cpu_percent (calculate t0 t1) (calculate t1 t2) sample_seconds = Inr (calculate t1 t2)
         \<and> 0 \<le> projr (get_cpu_percent (calculate t0 t1) (calculate t1 t2) sample_seconds)
         \<and> projr (get_cpu_percent (calculate t0 t1) (calculate t1 t2) sample_seconds) \<le> 100"
  using assms calculate_range [of t1 t2] by (simp add: get_cpu_percent_Inr)


theorem cpu_percent_in_range_witness:
  "get_cpu_percent (calculate cpu_boot cpu_before) (calculate cpu_before cpu_after) (4 / 5) = Inr (429 / 10)
   \<and> calculate cpu_boot cpu_before = 375 / 10"
proof -
  have h: "(0::real) \<le> 4 / 5" by simp
  have c: "calculate cpu_before cpu_after = 429 / 10"
    by (simp add: calculate_def cpu_times_deltas_def cpu_tot_time_def cpu_busy_time_def
        py_round1_def cpu_before_def cpu_after_def Let_def)
  have b: "calculate cpu_boot cpu_before = 375 / 10"
    by (simp add: calculate_def cpu_times_deltas_def cpu_tot_time_def cpu_busy_time_def
        py_round1_def cpu_boot_def cpu_before_def Let_def)
  show ?thesis
    using cpu_percent_in_range [OF h, of cpu_boot cpu_before cpu_after]
    by (simp add: c b)
qed

section \<open>Poll loop timing\<close>

text \<open>
  Claim C3. The header of \<^verbatim>\<open>winloop.py\<close> says the loop polls every 5 seconds, and the
  claim has the inter-tick sleep be the rest of the interval after the sampling work. The
  loop calls \<^verbatim>\<open>time.sleep(POLL_SECONDS)\<close> after the work instead: with 1.1 seconds of work
  it sleeps 5 seconds where the rest of the interval is 3.9 seconds, so the tick lasts 6.1
  seconds; with 6 seconds of work it still sleeps 5 seconds where the rest is 0.
\<close>

theorem poll_sleep_at_failing_input:
  "sleeps (main_loop [11 / 10] \<lparr>clock = 0, sleeps = []\<rparr>) = [5]
   \<and> spec_remaining_sleep POLL_SECONDS (11 / 10) = 39 / 10
   \<and> sleeps (main_loop [11 / 10] \<lparr>clock = 0, sleeps = []\<rparr>) \<noteq> [spec_remaining_sleep POLL_SECONDS (11 / 10)]
   \<and> clock (main_loop [11 / 10] \<lparr>clock = 0, sleeps = []\<rparr>) = 61 / 10
   \<and> sleeps (main_loop [6] \<lparr>clock = 0, sleeps = []\<rparr>) = [5]
   \<and> spec_remaining_sleep POLL_SECONDS 6 = 0"
  by (simp add: tick_def POLL_SECONDS_def spec_remaining_sleep_def)

section \<open>Window enumeration: filtering\<close>

text \<open>
  Claim C5. The handles of the records \<^verbatim>\<open>list_visible_windows\<close> returns are the enumerated
  handles that are flagged visible and whose title is non-empty after \<^verbatim>\<open>strip()\<close>, in
  enumeration order: a handle is in the result if and only if it was enumerated, is
  visible and has such a title. The stripped title is empty exactly when the title is
  empty or made of whitespace only.
\<close>

theorem list_visible_windows_filter:
  "map fst (fst (list_visible_windows os k)) =
     filter (\<lambda>h. IsWindowVisible os h \<and> py_strip (get_window_title os h) \<noteq> []) (EnumWindows os)
   \<and> (h \<in> set (map fst (fst (list_visible_windows os k)))) =
       (h \<in> set (EnumWindows os) \<and> IsWindowVisible os h \<and> py_strip (get_window_title os h) \<noteq> [])
   \<and> (py_strip (get_window_title os h) = []) = list_all py_isspace (get_window_title os h)"
proof -
  have m: "(h \<in> set (map fst (fst (list_visible_windows os k)))) =
       (h \<in> set (EnumWindows os) \<and> IsWindowVisible os h \<and> py_strip (get_window_title os h) \<noteq> [])"
    by (simp only: hwnds_list_visible_windows) auto
  show ?thesis
    using m hwnds_list_visible_windows [of os k] py_strip_Nil_all_space [of "get_window_title os h"]
    by blast
qed

theorem list_visible_windows_filter_witness:
  "map fst (fst (list_visible_windows desktop_mixed no_handles)) = [11]
   \<and> get_window_title desktop_mixed 12 = [32, 32, 32]
   \<and> 12 \<notin> set (map fst (fst (list_visible_windows desktop_mixed no_handles)))"
proof -
  have t: "get_window_title desktop_mixed 11 = ascii ''Notepad''"
    "get_window_title desktop_mixed 12 = [32, 32, 32]"
    "get_window_title desktop_mixed 14 = []"
    by (simp_all add: get_window_title_def desktop_mixed_def desktop_def buf_value_def ascii_def)
  have s: "py_strip (ascii ''Notepad'') \<noteq> []" "py_strip [32, 32, 32] = []" "py_strip [] = []"
    by (simp_all add: py_strip_def py_isspace_def ascii_def)
  have v: "IsWindowVisible desktop_mixed = (\<lambda>h. h \<noteq> 13)" "EnumWindows desktop_mixed = [11, 12, 13, 14]"
    by (simp_all add: desktop_mixed_def desktop_def)
  show ?thesis
    using list_visible_windows_filter [of desktop_mixed no_handles 12]
    by (simp add: t s v)
qed

section \<open>Window enumeration: process names\<close>

text \<open>
  Claim C6. \<^verbatim>\<open>list_visible_windows\<close> returns one record per surviving window. Its process
  name is empty when the query entry point is absent, \<^verbatim>\<open>OpenProcess\<close> gives no handle or the
  image-name query fails, and is the last component of the image path otherwise; it
  depends on no other window. Denying \<^verbatim>\<open>OpenProcess\<close> for one process blanks the names of
  that process's records and changes nothing else. The result is a plain list: the
  enumeration has no failing path.
\<close>

theorem list_visible_windows_partial_failure:
  "fst (list_visible_windows os k) =
     map (\<lambda>h. (h, get_window_title os h, get_window_pid os h,
                 (if QueryFullProcessImageNameW_present os \<and> OpenProcess os (get_window_pid os h) \<noteq> 0
                  then (case QueryFullProcessImageNameW os (OpenProcess os (get_window_pid os h)) of
                          None \<Rightarrow> []
                        | Some path \<Rightarrow> last (py_split 92 path))
                  else [])))
       (filter (\<lambda>h. IsWindowVisible os h \<and> py_strip (get_window_title os h) \<noteq> []) (EnumWindows os))
   \<and> length (fst (list_visible_windows os k)) =
       length (filter (\<lambda>h. IsWindowVisible os h \<and> py_strip (get_window_title os h) \<noteq> []) (EnumWindows os))
   \<and> ((\<not> QueryFullProcessImageNameW_present os \<or> OpenProcess os pid = 0
        \<or> QueryFullProcessImageNameW os (OpenProcess os pid) = None)
       \<longrightarrow> fst (get_process_name os pid k) = [])
   \<and> fst (list_visible_windows (os\<lparr>OpenProcess := (OpenProcess os)(denied := 0)\<rparr>) k) =
       map (\<lambda>(hwnd, title, p, pname). (hwnd, title, p, if p = denied then [] else pname))
         (fst (list_visible_windows os k))"
proof -
  have a: "fst (list_visible_windows os k) =
     map (\<lambda>h. (h, get_window_title os h, get_window_pid os h,
                 (if QueryFullProcessImageNameW_present os \<and> OpenProcess os (get_window_pid os h) \<noteq> 0
                  then (case QueryFullProcessImageNameW os (OpenProcess os (get_window_pid os h)) of
                          None \<Rightarrow> []
                        | Some path \<Rightarrow> last (py_split 92 path))
                  else [])))
       (filter (\<lambda>h. IsWindowVisible os h \<and> py_strip (get_window_title os h) \<noteq> []) (EnumWindows os))"
    by (simp only: fst_list_visible_windows fst_get_process_name)
  have b: "length (fst (list_visible_windows os k)) =
       length (filter (\<lambda>h. IsWindowVisible os h \<and> py_strip (get_window_title os h) \<noteq> []) (EnumWindows os))"
    by (simp only: fst_list_visible_windows length_map)
  have c: "(\<not> QueryFullProcessImageNameW_present os \<or> OpenProcess os pid = 0
        \<or> QueryFullProcessImageNameW os (OpenProcess os pid) = None)
       \<longrightarrow> fst (get_process_name os pid k) = []"
    by (auto simp: fst_get_process_name)
  have d: "fst (list_visible_windows (os\<lparr>OpenProcess := (OpenProcess os)(denied := 0)\<rparr>) k) =
       map (\<lambda>(hwnd, title, p, pname). (hwnd, title, p, if p = denied then [] else pname))
         (fst (list_visible_windows os k))"
    by (simp add: fst_list_visible_windows fst_get_process_name comp_def)
  show ?thesis
    using a b c d by blast
qed

theorem list_visible_windows_partial_failure_witness:
  "length (fst (list_visible_windows desktop no_handles)) = 3
   \<and> map (\<lambda>(hwnd, title, p, pname). (p, pname)) (fst (list_visible_windows desktop no_handles)) =
       [(100, ascii ''notepad.exe''), (200, []), (300, ascii ''mail.exe'')]
   \<and> length (filter (\<lambda>(hwnd, title, p, pname). pname = []) (fst (list_visible_windows desktop no_handles))) = 1
   \<and> fst (get_process_name desktop 200 no_handles) = []"
  using list_visible_windows_partial_failure [of desktop no_handles 200 200]
  by (simp add: desktop_def get_window_title_def get_window_pid_def buf_value_def ascii_def
      py_strip_def py_isspace_def)

section \<open>Process handles\<close>

text \<open>
  Claim C8. Whenever \<^verbatim>\<open>OpenProcess\<close> returns a handle, \<^verbatim>\<open>get_process_name\<close> calls
  \<^verbatim>\<open>CloseHandle\<close> on it before returning, whether the image-name query succeeds, fails or
  gives an empty path: the only handle calls of the function are the opening and the
  closing of that handle, and the table of open handles is the same after the call, and
  after a whole enumeration, as before.
\<close>

theorem get_process_name_closes_handle:
  assumes "QueryFullProcessImageNameW_present os" and "OpenProcess os pid \<noteq> 0"
  shows "calls (snd (get_process_name os pid k)) =
           calls k @ [Opened (OpenProcess os pid), Closed (OpenProcess os pid)]
         \<and> open_handles (snd (get_process_name os pid k)) = open_handles k
         \<and> open_handles (snd (list_visible_windows os k)) = open_handles k"
  using assms
  by (simp add: get_process_name_def Let_def open_handle_def CloseHandle_def
      open_handles_list_visible_windows split: option.split)

theorem get_process_name_closes_handle_witness:
  "snd (get_process_name desktop 100 no_handles) = \<lparr>open_handles = [], calls = [Opened 101, Closed 101]\<rparr>
   \<and> get_process_name desktop 500 no_handles = ([], \<lparr>open_handles = [], calls = [Opened 501, Closed 501]\<rparr>)
   \<and> get_process_name (desktop\<lparr>QueryFullProcessImageNameW := (\<lambda>hp. Some [])\<rparr>) 500 no_handles =
       ([], \<lparr>open_handles = [], calls = [Opened 501, Closed 501]\<rparr>)"
proof -
  have p: "QueryFullProcessImageNameW_present desktop"
    "QueryFullProcessImageNameW_present (desktop\<lparr>QueryFullProcessImageNameW := (\<lambda>hp. Some [])\<rparr>)"
    by (simp_all add: desktop_def)
  have o: "OpenProcess desktop 100 \<noteq> 0" "OpenProcess desktop 500 \<noteq> 0"
    "OpenProcess (desktop\<lparr>QueryFullProcessImageNameW := (\<lambda>hp. Some [])\<rparr>) 500 \<noteq> 0"
    by (simp_all add: desktop_def)
  have f: "fst (get_process_name desktop 500 no_handles) = []"
    "fst (get_process_name (desktop\<lparr>QueryFullProcessImageNameW := (\<lambda>hp. Some [])\<rparr>) 500 no_handles) = []"
    by (simp_all add: fst_get_process_name desktop_def)
  have e: "\<And>x :: ustr \<times> handles. \<And>a b. (x = (a, b)) = (fst x = a \<and> snd x = b)"
    by auto
  have q: "\<And>h :: handles. \<And>a b. (h = \<lparr>open_handles = a, calls = b\<rparr>) = (open_handles h = a \<and> calls h = b)"
    by auto
  show ?thesis
    using get_process_name_closes_handle [OF p(1) o(1), of no_handles]
      get_process_name_closes_handle [OF p(1) o(2), of no_handles]
      get_process_name_closes_handle [OF p(2) o(3), of no_handles]
    by (simp add: e q f) (simp add: desktop_def no_handles_def)
qed

section \<open>Repeated enumeration\<close>

text \<open>
  Claim C9. A second call of \<^verbatim>\<open>list_visible_windows\<close> right after the first, on the same
  window and process state, returns the same records: the lists are equal, and so are
  their sets. The second call starts from the handle table the first one left.
\<close>

theorem list_visible_windows_repeatable:
  "fst (list_visible_windows os (snd (list_visible_windows os k))) = fst (list_visible_windows os k)
   \<and> set (fst (list_visible_windows os (snd (list_visible_windows os k)))) =
       set (fst (list_visible_windows os k))"
  by (simp add: fst_list_visible_windows)

theorem list_visible_windows_repeatable_witness:
  "set (fst (list_visible_windows desktop (snd (list_visible_windows desktop no_handles)))) =
     {(11, ascii ''Notepad'', 100, ascii ''notepad.exe''), (12, ascii ''Shell'', 200, []),
      (13, ascii ''Mail'', 300, ascii ''mail.exe'')}
   \<and> calls (snd (list_visible_windows desktop no_handles)) =
       [Opened 101, Closed 101, Opened 301, Closed 301]"
proof -
  have c: "calls (snd (list_visible_windows desktop no_handles)) =
       [Opened 101, Closed 101, Opened 301, Closed 301]"
    by (simp add: list_visible_windows_def callback_eq get_process_name_def desktop_def
        get_window_title_def get_window_pid_def buf_value_def ascii_def py_strip_def py_isspace_def
        no_handles_def open_handle_def CloseHandle_def)
  have l: "fst (list_visible_windows desktop no_handles) =
     [(11, ascii ''Notepad'', 100, ascii ''notepad.exe''), (12, ascii ''Shell'', 200, []),
      (13, ascii ''Mail'', 300, ascii ''mail.exe'')]"
    by (simp add: fst_list_visible_windows fst_get_process_name desktop_def
        get_window_title_def get_window_pid_def buf_value_def ascii_def py_strip_def py_isspace_def)
  show ?thesis
    using list_visible_windows_repeatable [of desktop no_handles] c
    by (simp add: l)
qed

section \<open>Foreground title in the snapshot\<close>

text \<open>
  Claim C10. \<^verbatim>\<open>build_activity_snapshot\<close> stores the placeholder exactly when
  \<^verbatim>\<open>get_foreground_title\<close> returns the empty string, which it does when there is no
  foreground window or the reported title length is not positive; any other title is
  stored as it is. A title of whitespace only is not empty: it is stored untrimmed and is
  not the placeholder.
\<close>

theorem snapshot_title_placeholder:
  assumes "build_activity_snapshot r os cpu_seconds net_seconds = Inr s"
  shows "foreground_title s =
           (if get_foreground_title os = [] then placeholder else get_foreground_title os)
         \<and> ((GetForegroundWindow os = 0 \<or> GetWindowTextLengthW os (GetForegroundWindow os) \<le> 0)
              \<longrightarrow> get_foreground_title os = [])
         \<and> ((get_foreground_title os \<noteq> [] \<and> py_strip (get_foreground_title os) = [])
              \<longrightarrow> foreground_title s = get_foreground_title os \<and> foreground_title s \<noteq> placeholder)"
proof -
  have t: "foreground_title s =
           (if get_foreground_title os = [] then placeholder else get_foreground_title os)"
    using assms
    by (auto simp: build_activity_snapshot_def Let_def split: sum.splits prod.splits)
  have e: "(GetForegroundWindow os = 0 \<or> GetWindowTextLengthW os (GetForegroundWindow os) \<le> 0)
              \<longrightarrow> get_foreground_title os = []"
    by (auto simp: get_foreground_title_def Let_def)
  have p: "py_strip placeholder \<noteq> []"
    by (simp add: placeholder_def ascii_def py_strip_def py_isspace_def)
  show ?thesis
    using t e p by auto
qed

theorem snapshot_title_placeholder_witness:
  "build_activity_snapshot sample_readings desktop_mixed (4 / 5) (1 / 5) =
     Inr \<lparr>idle_seconds = 1 / 2, foreground_title = [32, 32, 32], cpu_percent = 25 / 2,
          net_up_bps = 2000, net_down_bps = 500, timestamp = 1700000000\<rparr>
   \<and> get_foreground_title desktop_mixed = [32, 32, 32]
   \<and> py_strip (get_foreground_title desktop_mixed) = []
   \<and> build_activity_snapshot sample_readings (desktop_mixed\<lparr>GetForegroundWindow := 0\<rparr>) (4 / 5) (1 / 5) =
     Inr \<lparr>idle_seconds = 1 / 2, foreground_title = placeholder, cpu_percent = 25 / 2,
          net_up_bps = 2000, net_down_bps = 500, timestamp = 1700000000\<rparr>
   \<and> get_foreground_title (desktop_mixed\<lparr>GetForegroundWindow := 0\<rparr>) = []"
proof -
  have b: "build_activity_snapshot sample_readings desktop_mixed (4 / 5) (1 / 5) =
     Inr \<lparr>idle_seconds = 1 / 2, foreground_title = [32, 32, 32], cpu_percent = 25 / 2,
          net_up_bps = 2000, net_down_bps = 500, timestamp = 1700000000\<rparr>"
    by (simp add: build_activity_snapshot_def get_cpu_percent_def get_net_rates_def time_sleep_def
        get_idle_seconds_def get_foreground_title_def buf_value_def sample_readings_def
        desktop_mixed_def desktop_def)
  have b0: "build_activity_snapshot sample_readings (desktop_mixed\<lparr>GetForegroundWindow := 0\<rparr>) (4 / 5) (1 / 5) =
     Inr \<lparr>idle_seconds = 1 / 2, foreground_title = placeholder, cpu_percent = 25 / 2,
          net_up_bps = 2000, net_down_bps = 500, timestamp = 1700000000\<rparr>"
    by (simp add: build_activity_snapshot_def get_cpu_percent_def get_net_rates_def time_sleep_def
        get_idle_seconds_def get_foreground_title_def buf_value_def sample_readings_def
        desktop_mixed_def desktop_def)
  have g: "get_foreground_title desktop_mixed = [32, 32, 32]"
    by (simp add: get_foreground_title_def buf_value_def desktop_mixed_def desktop_def)
  have w: "py_strip [32, 32, 32] = []"
    by (simp add: py_strip_def py_isspace_def)
  have z: "GetForegroundWindow (desktop_mixed\<lparr>GetForegroundWindow := 0\<rparr>) = 0"
    by simp
  show ?thesis
    using snapshot_title_placeholder [OF b] snapshot_title_placeholder [OF b0]
    by (simp add: b b0 g w z)
qed

end
